theory Spec2Isabelle
  imports Complex_Main
begin

section \<open>Common Python notions\<close>

text \<open>
  A Python \<open>str\<close> is a sequence of Unicode code points, and iterating over it yields one
  code point at a time; it is modelled as a list of natural numbers.  ASCII literals of
  the source are written as HOL strings and converted with \<open>cps\<close>.  Labels and
  dictionary keys, which are ASCII literals throughout, stay HOL strings.  A Python float
  is read as the real number it denotes, and comparisons of floats are comparisons of
  those numbers.  Float arithmetic is idealised as real arithmetic, except in the image
  analyzer, whose sums of percentages are compared with each other: there the
  floating-point addition is a parameter of the model.
\<close>

type_synonym pystr = "nat list"

definition cps :: "string \<Rightarrow> pystr" where
  "cps s = map of_char s"

datatype py_error =
    KeyError string
  | IndexError
  | TypeError
  | UnidentifiedImageError
  | UncaughtError string

text \<open>\<open>needle in hay\<close> on strings: contiguous substring test.\<close>

fun startswith :: "'a list \<Rightarrow> 'a list \<Rightarrow> bool" where
  "startswith hay [] = True"
| "startswith [] (p # ps) = False"
| "startswith (x # xs) (p # ps) = (x = p \<and> startswith xs ps)"

fun str_contains :: "'a list \<Rightarrow> 'a list \<Rightarrow> bool" where
  "str_contains [] needle = (needle = [])"
| "str_contains (x # xs) needle = (startswith (x # xs) needle \<or> str_contains xs needle)"

text \<open>
  Python's \<open>max(it, key=f)\<close> and \<open>min(it, key=f)\<close> keep the first extremal element:
  the running best is replaced only by a strictly better one.  numpy's and pandas'
  \<open>argmax\<close>/\<open>idxmax\<close> pick the first occurrence as well.
\<close>

fun max_from :: "('a \<Rightarrow> 'k::linorder) \<Rightarrow> 'a \<Rightarrow> 'a list \<Rightarrow> 'a" where
  "max_from key best [] = best"
| "max_from key best (x # xs) = max_from key (if key best < key x then x else best) xs"

fun min_from :: "('a \<Rightarrow> 'k::linorder) \<Rightarrow> 'a \<Rightarrow> 'a list \<Rightarrow> 'a" where
  "min_from key best [] = best"
| "min_from key best (x # xs) = min_from key (if key x < key best then x else best) xs"

definition py_max :: "('a \<Rightarrow> 'k::linorder) \<Rightarrow> 'a list \<Rightarrow> 'a option" where
  "py_max key xs = (case xs of [] \<Rightarrow> None | x # rest \<Rightarrow> Some (max_from key x rest))"

definition py_min :: "('a \<Rightarrow> 'k::linorder) \<Rightarrow> 'a list \<Rightarrow> 'a option" where
  "py_min key xs = (case xs of [] \<Rightarrow> None | x # rest \<Rightarrow> Some (min_from key x rest))"

text \<open>
  \<open>collections.Counter\<close> is a dictionary from element to count whose keys stay in order of
  first insertion: an association list.  \<open>most_common(1)\<close> is
  \<open>heapq.nlargest(1, items, key=count)\<close>, which for \<open>n = 1\<close> is \<open>max\<close> over the items.
\<close>

type_synonym 'a counter = "('a \<times> nat) list"

fun counter_add :: "'a \<Rightarrow> 'a counter \<Rightarrow> 'a counter" where
  "counter_add x [] = [(x, 1)]"
| "counter_add x ((k, c) # kcs) =
     (if k = x then (k, c + 1) # kcs else (k, c) # counter_add x kcs)"

definition Counter :: "'a list \<Rightarrow> 'a counter" where
  "Counter xs = foldl (\<lambda>acc x. counter_add x acc) [] xs"

definition counter_get :: "'a counter \<Rightarrow> 'a \<Rightarrow> nat \<Rightarrow> nat" where
  "counter_get cnt k dflt = (case map_of cnt k of None \<Rightarrow> dflt | Some c \<Rightarrow> c)"

definition most_common1 :: "'a counter \<Rightarrow> ('a \<times> nat) list" where
  "most_common1 cnt = (case py_max snd cnt of None \<Rightarrow> [] | Some kc \<Rightarrow> [kc])"


section \<open>Text analyzer (\<open>analyzers/text_analyzer.py\<close>)\<close>

text \<open>
  The two lexical scorers are external libraries.  \<open>TextAnalyzer\<close> holds them as the
  object does: \<open>polarity_scores\<close> is VADER's scorer, \<open>sentiment\<close> is TextBlob's.
\<close>

record vader_scores =
  neg :: real
  neu :: real
  pos :: real
  compound :: real

record blob_sentiment =
  polarity :: real
  subjectivity :: real

record TextAnalyzer =
  polarity_scores :: "pystr \<Rightarrow> vader_scores"
  sentiment :: "pystr \<Rightarrow> blob_sentiment"

record vader_result =
  v_text :: pystr
  v_scores :: vader_scores
  v_label :: string
  v_compound :: real
  v_confidence :: real

record textblob_result =
  tb_text :: pystr
  tb_polarity :: real
  tb_subjectivity :: real
  tb_label :: string

record sentiment_result =
  post_text :: pystr
  vader_score :: real
  textblob_polarity :: real
  textblob_subjectivity :: real
  combined_score :: real
  label :: string
  confidence :: real

definition analyze_sentiment_vader :: "TextAnalyzer \<Rightarrow> pystr \<Rightarrow> vader_result" where
  "analyze_sentiment_vader self txt =
     (let scores = polarity_scores self txt;
          sentiment_label =
            (if compound scores \<ge> 0.05 then ''Positive''
             else if compound scores \<le> - 0.05 then ''Negative''
             else ''Neutral'')
      in \<lparr>v_text = txt, v_scores = scores, v_label = sentiment_label,
          v_compound = compound scores, v_confidence = \<bar>compound scores\<bar>\<rparr>)"

definition analyze_sentiment_textblob :: "TextAnalyzer \<Rightarrow> pystr \<Rightarrow> textblob_result" where
  "analyze_sentiment_textblob self txt =
     (let blob = sentiment self txt;
          lbl =
            (if polarity blob > 0.05 then ''Positive''
             else if polarity blob < - 0.05 then ''Negative''
             else ''Neutral'')
      in \<lparr>tb_text = txt, tb_polarity = polarity blob,
          tb_subjectivity = subjectivity blob, tb_label = lbl\<rparr>)"

definition combined_sentiment :: "TextAnalyzer \<Rightarrow> pystr \<Rightarrow> sentiment_result" where
  "combined_sentiment self txt =
     (let vader_result = analyze_sentiment_vader self txt;
          textblob_result = analyze_sentiment_textblob self txt;
          combined = v_compound vader_result * 0.6 + tb_polarity textblob_result * 0.4;
          lbl =
            (if combined \<ge> 0.05 then ''Positive''
             else if combined \<le> - 0.05 then ''Negative''
             else ''Neutral'')
      in \<lparr>post_text = txt, vader_score = v_compound vader_result,
          textblob_polarity = tb_polarity textblob_result,
          textblob_subjectivity = tb_subjectivity textblob_result,
          combined_score = combined, label = lbl, confidence = \<bar>combined\<bar>\<rparr>)"

text \<open>The threshold function of the specification, in its own words.\<close>

definition labelFromScore :: "real \<Rightarrow> string" where
  "labelFromScore x =
     (if x \<ge> 0.05 then ''Positive'' else if x \<le> - 0.05 then ''Negative'' else ''Neutral'')"


subsection \<open>Batch analysis\<close>

text \<open>
  \<open>analyze_batch\<close> builds one result dictionary per text and hands the list to
  \<open>pd.DataFrame\<close>.  A frame built from a list of dictionaries takes its columns from the
  dictionaries' keys, so a frame built from the empty list has no columns at all.  The
  \<open>hashtags\<close> and \<open>mentions\<close> entries, which the summary never reads, appear as column
  names only.  Selecting a column that the frame does not have raises \<open>KeyError\<close>.
\<close>

record dataframe =
  df_columns :: "string list"
  df_rows :: "sentiment_result list"

definition result_keys :: "string list" where
  "result_keys = [''text'', ''vader_score'', ''textblob_polarity'', ''textblob_subjectivity'',
                  ''combined_score'', ''label'', ''confidence'', ''hashtags'', ''mentions'']"

definition DataFrame :: "sentiment_result list \<Rightarrow> dataframe" where
  "DataFrame results =
     \<lparr>df_columns = (if results = [] then [] else result_keys), df_rows = results\<rparr>"

definition analyze_batch :: "TextAnalyzer \<Rightarrow> pystr list \<Rightarrow> dataframe" where
  "analyze_batch self texts = DataFrame (map (combined_sentiment self) texts)"

definition column :: "dataframe \<Rightarrow> string \<Rightarrow> (sentiment_result \<Rightarrow> 'v) \<Rightarrow> py_error + 'v list" where
  "column df name field =
     (if name \<in> set (df_columns df) then Inr (map field (df_rows df)) else Inl (KeyError name))"

text \<open>
  \<open>Series.mean\<close> of no values and \<open>Series.std\<close> (sample deviation, \<open>ddof = 1\<close>) of fewer
  than two values are NaN, written \<open>None\<close>.
\<close>

definition mean :: "real list \<Rightarrow> real option" where
  "mean xs = (if xs = [] then None else Some (sum_list xs / real (length xs)))"

definition std :: "real list \<Rightarrow> real option" where
  "std xs =
     (if length xs < 2 then None
      else let m = sum_list xs / real (length xs)
           in Some (sqrt (sum_list (map (\<lambda>x. (x - m)\<^sup>2) xs) / real (length xs - 1))))"

record summary =
  total_posts :: nat
  positive_count :: nat
  negative_count :: nat
  neutral_count :: nat
  avg_sentiment :: "real option"
  sentiment_std :: "real option"
  most_positive :: "pystr option"
  most_negative :: "pystr option"
  positive_percentage :: real
  negative_percentage :: real
  neutral_percentage :: real

definition count_label :: "string list \<Rightarrow> string \<Rightarrow> nat" where
  "count_label labels l = length (filter (\<lambda>x. x = l) labels)"

text \<open>
  The dictionary literal of \<open>get_sentiment_summary\<close> is evaluated entry by entry; the
  first column selection that fails ends the call with its \<open>KeyError\<close>.  The \<open>text\<close>
  column is only selected when the frame has rows.
\<close>

definition get_sentiment_summary :: "dataframe \<Rightarrow> py_error + summary" where
  "get_sentiment_summary df =
     (let n = length (df_rows df) in
      case column df ''label'' label of
        Inl e \<Rightarrow> Inl e
      | Inr labels \<Rightarrow>
     (case column df ''combined_score'' combined_score of
        Inl e \<Rightarrow> Inl e
      | Inr scores \<Rightarrow>
     (if n > 0 \<and> ''text'' \<notin> set (df_columns df) then Inl (KeyError ''text'')
      else Inr
        \<lparr>total_posts = n,
         positive_count = count_label labels ''Positive'',
         negative_count = count_label labels ''Negative'',
         neutral_count = count_label labels ''Neutral'',
         avg_sentiment = mean scores,
         sentiment_std = std scores,
         most_positive =
           (if n > 0 then map_option post_text (py_max combined_score (df_rows df)) else None),
         most_negative =
           (if n > 0 then map_option post_text (py_min combined_score (df_rows df)) else None),
         positive_percentage =
           (if n > 0 then real (count_label labels ''Positive'') / real n * 100 else 0),
         negative_percentage =
           (if n > 0 then real (count_label labels ''Negative'') / real n * 100 else 0),
         neutral_percentage =
           (if n > 0 then real (count_label labels ''Neutral'') / real n * 100 else 0)\<rparr>)))"


section \<open>Emoji analyzer (\<open>analyzers/emoji_analyzer.py\<close>)\<close>

text \<open>
  The emoticon table is a dictionary literal, iterated in insertion order.  The two emoji
  sets hold strings; three of their members are two code points long (an emoji followed
  by the variation selector \<open>0xFE0F\<close>).
\<close>

definition emoticon_sentiments :: "(pystr \<times> string) list" where
  "emoticon_sentiments =
    [(cps '':)'', ''positive''),
     (cps '':-)'', ''positive''),
     (cps '':D'', ''positive''),
     (cps '':-D'', ''positive''),
     (cps '';)'', ''positive''),
     (cps '';-)'', ''positive''),
     (cps '':P'', ''positive''),
     (cps '':-P'', ''positive''),
     (cps ''XD'', ''positive''),
     (cps ''<3'', ''positive''),
     (cps '':*'', ''positive''),
     (cps ''^^'', ''positive''),
     (cps ''=)'', ''positive''),
     (cps ''=D'', ''positive''),
     (cps ''B)'', ''positive''),
     (cps '':('', ''negative''),
     (cps '':-('', ''negative''),
     ([0x3A, 0x27, 0x28], ''negative''),
     (cps ''D:'', ''negative''),
     (cps ''>:('', ''negative''),
     (cps '':/'', ''negative''),
     (cps '':-/'', ''negative''),
     (cps '':|'', ''negative''),
     (cps '':-|'', ''negative''),
     (cps ''>.<'', ''negative''),
     (cps ''T_T'', ''negative''),
     (cps ''TT'', ''negative''),
     (cps '':-O'', ''neutral''),
     (cps '':O'', ''neutral''),
     (cps ''O_o'', ''neutral''),
     (cps ''o_O'', ''neutral''),
     (cps ''._.'', ''neutral'')]"

definition positive_emojis :: "pystr list" where
  "positive_emojis =
    [[0x1F600], [0x1F603], [0x1F604], [0x1F601], [0x1F606], [0x1F605], [0x1F923],
     [0x1F602], [0x1F642], [0x1F643], [0x1F609], [0x1F60A], [0x1F607], [0x1F970],
     [0x1F60D], [0x1F929], [0x1F618], [0x1F617], [0x1F61A], [0x1F619], [0x1F972],
     [0x1F60B], [0x1F61B], [0x1F61C], [0x1F92A], [0x1F61D], [0x1F44D], [0x1F44F],
     [0x1F389], [0x1F38A], [0x2764, 0xFE0F], [0x1F495], [0x1F496], [0x1F497], [0x1F493],
     [0x1F49D], [0x1F498], [0x1F31F], [0x2B50], [0x2728], [0x1F525], [0x1F4AA], [0x1F917],
     [0x1F973], [0x1F60E], [0x1F91F], [0x1F64C], [0x1F44C]]"

definition negative_emojis :: "pystr list" where
  "negative_emojis =
    [[0x1F61E], [0x1F614], [0x1F61F], [0x1F615], [0x1F641], [0x2639, 0xFE0F], [0x1F623],
     [0x1F616], [0x1F62B], [0x1F629], [0x1F97A], [0x1F622], [0x1F62D], [0x1F624],
     [0x1F620], [0x1F621], [0x1F92C], [0x1F608], [0x1F47F], [0x1F480], [0x2620, 0xFE0F],
     [0x1F494], [0x1F630], [0x1F625], [0x1F613], [0x1F92E], [0x1F922], [0x1F631],
     [0x1F628], [0x1F44E], [0x1F612], [0x1F611], [0x1F62C], [0x1F925], [0x1F62A],
     [0x1F971], [0x1F635], [0x1F915], [0x1F912], [0x1F4A9]]"

text \<open>
  The \<open>emoji\<close> package is external: \<open>is_emoji\<close> and \<open>demojize\<close>, applied to one
  character, are taken as given.
\<close>

record EmojiAnalyzer =
  is_emoji :: "nat \<Rightarrow> bool"
  demojize :: "nat \<Rightarrow> pystr"

record emoji_match =
  emoji :: nat
  name :: pystr
  em_sentiment :: string

record emoticon_match =
  emoticon :: pystr
  et_sentiment :: string

definition get_emoji_sentiment :: "nat \<Rightarrow> string" where
  "get_emoji_sentiment emoji_char =
     (if [emoji_char] \<in> set positive_emojis then ''positive''
      else if [emoji_char] \<in> set negative_emojis then ''negative''
      else ''neutral'')"

definition extract_emojis :: "EmojiAnalyzer \<Rightarrow> pystr \<Rightarrow> emoji_match list" where
  "extract_emojis self txt =
     map (\<lambda>c. \<lparr>emoji = c, name = demojize self c, em_sentiment = get_emoji_sentiment c\<rparr>)
       (filter (is_emoji self) txt)"

definition extract_emoticons :: "pystr \<Rightarrow> emoticon_match list" where
  "extract_emoticons txt =
     map (\<lambda>(e, s). \<lparr>emoticon = e, et_sentiment = s\<rparr>)
       (filter (\<lambda>(e, s). str_contains txt e) emoticon_sentiments)"

record emoji_result =
  er_text :: pystr
  emojis_found :: "emoji_match list"
  emoticons_found :: "emoticon_match list"
  total_emoji_count :: nat
  total_emoticon_count :: nat
  sentiment_distribution :: "string counter"
  emoji_sentiment_score :: real
  overall_emoji_sentiment :: string
  emoji_frequency :: "nat counter"

text \<open>
  The fusion step of \<open>analyze_emoji_sentiment\<close>: from the list of matched sentiments to
  the score and the overall label.  \<open>(pos - neg) / total\<close> is Python's true division of
  integers.
\<close>

definition symbol_fusion :: "string list \<Rightarrow> real \<times> string" where
  "symbol_fusion all_sentiments =
     (let sentiment_counts = Counter all_sentiments;
          total = length all_sentiments
      in if total = 0 then (0, ''no_emoji'')
         else
           let p = counter_get sentiment_counts ''positive'' 0;
               n = counter_get sentiment_counts ''negative'' 0;
               score = (int p - int n) / int total
           in (score,
               if score > 0.1 then ''positive''
               else if score < - 0.1 then ''negative''
               else ''neutral''))"

definition all_sentiments_of :: "EmojiAnalyzer \<Rightarrow> pystr \<Rightarrow> string list" where
  "all_sentiments_of self txt =
     map em_sentiment (extract_emojis self txt) @ map et_sentiment (extract_emoticons txt)"

definition analyze_emoji_sentiment :: "EmojiAnalyzer \<Rightarrow> pystr \<Rightarrow> emoji_result" where
  "analyze_emoji_sentiment self txt =
     (let emojis = extract_emojis self txt;
          emoticons = extract_emoticons txt;
          all_sentiments = all_sentiments_of self txt;
          (score, overall) = symbol_fusion all_sentiments
      in \<lparr>er_text = txt, emojis_found = emojis, emoticons_found = emoticons,
          total_emoji_count = length emojis, total_emoticon_count = length emoticons,
          sentiment_distribution = Counter all_sentiments,
          emoji_sentiment_score = score, overall_emoji_sentiment = overall,
          emoji_frequency = Counter (map emoji emojis)\<rparr>)"


section \<open>Image analyzer (\<open>analyzers/image_analyzer.py\<close>)\<close>

text \<open>
  Decoding, K-means clustering and the HSV conversion are library calls.  What they
  deliver for a file is taken as given: the file is absent, or it is no image that PIL
  can open, or PIL opens it and OpenCV cannot read it, or it is a picture with its
  dominant colours (name and share in per cent) and its mean brightness.
\<close>

record color_entry =
  color_name :: string
  percentage :: real

datatype image_file =
    Absent
  | NotAnImage
  | Unreadable
  | Picture "color_entry list" real

text \<open>
  The percentages of the warm and of the cool colours are added up with the built-in
  \<open>sum\<close>: from the integer 0, left to right, in double precision.  The two sums are
  then compared, and where the exact sums are equal or nearly so, the rounding of the
  additions decides the comparison.  The platform's addition of two doubles (the rounded
  sum) is therefore taken as given, beside the files on disk.
\<close>

record platform =
  float_add :: "real \<Rightarrow> real \<Rightarrow> real"
  files :: "string \<Rightarrow> image_file"

definition py_sum :: "(real \<Rightarrow> real \<Rightarrow> real) \<Rightarrow> real list \<Rightarrow> real" where
  "py_sum add xs = foldl add 0 xs"

record image_result =
  dominant_colors :: "color_entry list"
  brightness_value :: real
  image_sentiment :: string

datatype image_analysis =
    ImageError string
  | ImageAnalysis image_result

definition warm_names :: "string list" where
  "warm_names = [''red'', ''orange'', ''yellow'', ''pink'']"

definition cool_names :: "string list" where
  "cool_names = [''blue'', ''green'', ''purple'']"

definition warm_colors :: "(real \<Rightarrow> real \<Rightarrow> real) \<Rightarrow> color_entry list \<Rightarrow> real" where
  "warm_colors add colors =
     py_sum add (map percentage (filter (\<lambda>c. color_name c \<in> set warm_names) colors))"

definition cool_colors :: "(real \<Rightarrow> real \<Rightarrow> real) \<Rightarrow> color_entry list \<Rightarrow> real" where
  "cool_colors add colors =
     py_sum add (map percentage (filter (\<lambda>c. color_name c \<in> set cool_names) colors))"

text \<open>
  \<open>analyze_image\<close>: a missing file gives a dictionary with an \<open>error\<close> entry; a file
  that PIL cannot open makes \<open>Image.open\<close> raise; a file that OpenCV cannot read makes
  \<open>get_dominant_colors\<close> return an error dictionary, over whose keys the sum of the
  percentages then iterates, and indexing a key (a string) by \<open>'color_name'\<close> raises
  \<open>TypeError\<close>.  The rounded percentages reported beside the label are left out.
\<close>

definition analyze_image :: "platform \<Rightarrow> string \<Rightarrow> py_error + image_analysis" where
  "analyze_image pf image_path =
     (case files pf image_path of
        Absent \<Rightarrow> Inr (ImageError (''Image not found: '' @ image_path))
      | NotAnImage \<Rightarrow> Inl UnidentifiedImageError
      | Unreadable \<Rightarrow> Inl TypeError
      | Picture colors brightness \<Rightarrow>
          let warm = warm_colors (float_add pf) colors;
              cool = cool_colors (float_add pf) colors;
              sentiment =
                (if warm > cool \<and> brightness > 120 then ''positive''
                 else if cool > warm \<and> brightness < 80 then ''negative''
                 else ''neutral'')
          in Inr (ImageAnalysis \<lparr>dominant_colors = colors, brightness_value = brightness,
                                  image_sentiment = sentiment\<rparr>))"


section \<open>Audio analyzer (\<open>analyzers/audio_analyzer.py\<close>)\<close>

text \<open>
  What the speech recogniser and the WAV reader deliver is taken as given.  The
  recogniser returns a text, or raises one of the two exceptions that
  \<open>transcribe_audio\<close> catches, or raises something else.  The WAV reader fails (any
  exception is caught by \<open>extract_audio_features\<close>), or yields the sample width and
  the three readings computed with numpy: RMS, maximal amplitude, zero-crossing rate.
\<close>

datatype recognition =
    Recognized pystr
  | UnknownValueError
  | RequestError string
  | OtherFailure string

datatype wav_reading =
    WavFailure string
  | WavData nat real real real

record audio_env =
  a_exists :: bool
  sr_available :: bool
  recognizer :: recognition
  wav :: wav_reading

record transcription =
  tr_transcription :: "pystr option"
  tr_success :: "bool option"
  tr_engine :: "string option"
  tr_error :: "string option"

definition transcribe_audio :: "audio_env \<Rightarrow> string \<Rightarrow> py_error + transcription" where
  "transcribe_audio env audio_path =
     (if \<not> sr_available env then
        Inr \<lparr>tr_transcription = Some [], tr_success = None, tr_engine = None,
             tr_error = Some ''speech_recognition not installed''\<rparr>
      else if \<not> a_exists env then
        Inr \<lparr>tr_transcription = None, tr_success = None, tr_engine = None,
             tr_error = Some (''Audio file not found: '' @ audio_path)\<rparr>
      else case recognizer env of
        Recognized t \<Rightarrow>
          Inr \<lparr>tr_transcription = Some t, tr_success = Some True,
               tr_engine = Some ''google'', tr_error = None\<rparr>
      | UnknownValueError \<Rightarrow>
          Inr \<lparr>tr_transcription = Some [], tr_success = Some False, tr_engine = None,
               tr_error = Some ''Speech not recognized''\<rparr>
      | RequestError e \<Rightarrow>
          Inr \<lparr>tr_transcription = Some [], tr_success = Some False, tr_engine = None,
               tr_error = Some (''API error: '' @ e)\<rparr>
      | OtherFailure e \<Rightarrow> Inl (UncaughtError e))"

record audio_features =
  volume_level :: string
  estimated_tone :: string

datatype features_result =
    FeaturesError string
  | Features audio_features

definition extract_audio_features :: "audio_env \<Rightarrow> string \<Rightarrow> features_result" where
  "extract_audio_features env audio_path =
     (if \<not> a_exists env then FeaturesError (''File not found: '' @ audio_path)
      else case wav env of
        WavFailure e \<Rightarrow> FeaturesError (''Error processing audio: '' @ e)
      | WavData sample_width rms max_amplitude zcr \<Rightarrow>
          let max_possible =
                (if sample_width = 2 then 32767
                 else if max_amplitude > 0 then max_amplitude else 1);
              volume_ratio = rms / max_possible;
              level =
                (if volume_ratio > 0.3 then ''loud''
                 else if volume_ratio > 0.1 then ''moderate''
                 else ''quiet'');
              tone =
                (if zcr > 0.1 \<and> volume_ratio > 0.2 then ''excited/energetic''
                 else if zcr < 0.05 \<and> volume_ratio < 0.1 then ''calm/subdued''
                 else if volume_ratio > 0.3 then ''assertive/angry''
                 else ''neutral/conversational'')
          in Features \<lparr>volume_level = level, estimated_tone = tone\<rparr>)"

record audio_result =
  ar_features :: features_result
  ar_transcription :: transcription
  text_sentiment :: "sentiment_result option"
  audio_sentiment :: "string option"

text \<open>The tone-keyword mapping of \<open>analyze_audio\<close>.\<close>

definition tone_sentiment :: "string \<Rightarrow> string" where
  "tone_sentiment tone =
     (if str_contains tone ''excited'' \<or> str_contains tone ''energetic'' then ''positive''
      else if str_contains tone ''angry'' then ''negative''
      else ''neutral'')"

definition analyze_audio :: "TextAnalyzer \<Rightarrow> audio_env \<Rightarrow> string \<Rightarrow> py_error + audio_result" where
  "analyze_audio text_analyzer env audio_path =
     (let features = extract_audio_features env audio_path in
      case transcribe_audio env audio_path of
        Inl e \<Rightarrow> Inl e
      | Inr tr \<Rightarrow>
          if tr_success tr = Some True then
            (case tr_transcription tr of
               None \<Rightarrow> Inl (KeyError ''transcription'')
             | Some t \<Rightarrow>
                 Inr \<lparr>ar_features = features, ar_transcription = tr,
                      text_sentiment = Some (combined_sentiment text_analyzer t),
                      audio_sentiment = None\<rparr>)
          else
            Inr \<lparr>ar_features = features, ar_transcription = tr, text_sentiment = None,
                 audio_sentiment =
                   (case features of
                      FeaturesError e \<Rightarrow> Some ''unknown''
                    | Features f \<Rightarrow> Some (tone_sentiment (estimated_tone f)))\<rparr>)"


section \<open>Video analyzer (\<open>analyzers/video_analyzer.py\<close>)\<close>

text \<open>
  What OpenCV delivers for a video is taken as given: whether the path exists, whether
  the capture opens, the frame count and rate, for each of the requested key-frame
  positions whether \<open>cap.read()\<close> succeeds, and the motion scores of the sampled frames
  (the \<open>motion_score\<close> entries of the timeline).  Scene-change detection plays no part
  in the sentiment or the energy level and is left out.
\<close>

record video_env =
  v_exists :: bool
  v_opened :: bool
  v_total_frames :: nat
  v_fps :: real
  v_read :: "nat \<Rightarrow> bool"
  v_motion_scores :: "real list"

text \<open>Decimal digits, \<open>f'{i:04d}'\<close> and \<open>os.path.join\<close> (for a relative second part).\<close>

fun digits :: "nat \<Rightarrow> string" where
  "digits n =
     (if n < 10 then [''0123456789'' ! n]
      else digits (n div 10) @ [''0123456789'' ! (n mod 10)])"

definition format_04d :: "nat \<Rightarrow> string" where
  "format_04d i = replicate (4 - length (digits i)) CHR ''0'' @ digits i"

definition path_join :: "string \<Rightarrow> string \<Rightarrow> string" where
  "path_join a b = (if a = [] \<or> last a = CHR ''/'' then a @ b else a @ ''/'' @ b)"

text \<open>An argument is truthy when it is neither \<open>None\<close> nor the empty string.\<close>

definition truthy :: "string option \<Rightarrow> bool" where
  "truthy d = (case d of None \<Rightarrow> False | Some s \<Rightarrow> s \<noteq> [])"

record key_frames =
  kf_total_frames :: nat
  kf_fps :: real
  extracted_frames :: "nat list"
  frame_paths :: "string list"
  num_extracted :: nat

datatype key_frames_result =
    KeyFramesError string
  | KeyFrames key_frames

text \<open>
  \<open>extract_key_frames\<close>: the loop runs over the \<open>num_frames\<close> positions; a frame that
  was read is recorded, and it gets a path only when an output directory was given.
  Extracted frames are represented by their positions.
\<close>

definition extract_key_frames ::
  "video_env \<Rightarrow> string \<Rightarrow> nat \<Rightarrow> string option \<Rightarrow> key_frames_result" where
  "extract_key_frames env video_path num_frames output_dir =
     (if \<not> v_exists env then KeyFramesError (''Video not found: '' @ video_path)
      else if v_total_frames env = 0 then KeyFramesError ''Could not read video frames''
      else
        let frames = filter (v_read env) [0..<num_frames];
            paths =
              (case output_dir of
                 None \<Rightarrow> []
               | Some d \<Rightarrow>
                   if d = [] then []
                   else map (\<lambda>i. path_join d (''frame_'' @ format_04d i @ ''.jpg'')) frames)
        in KeyFrames \<lparr>kf_total_frames = v_total_frames env, kf_fps = v_fps env,
                      extracted_frames = frames, frame_paths = paths,
                      num_extracted = length frames\<rparr>)"

record motion =
  motion_scores :: "real list"
  activity_level :: string

datatype motion_result =
    MotionError string
  | Motion motion

definition analyze_motion :: "video_env \<Rightarrow> motion_result" where
  "analyze_motion env =
     (if \<not> v_opened env then MotionError ''Could not open video''
      else
        let scores = v_motion_scores env
        in if scores \<noteq> [] then
             let avg_motion = sum_list scores / real (length scores);
                 level =
                   (if avg_motion > 20 then ''high_activity''
                    else if avg_motion > 8 then ''moderate_activity''
                    else ''low_activity'')
             in Motion \<lparr>motion_scores = scores, activity_level = level\<rparr>
           else Motion \<lparr>motion_scores = scores, activity_level = ''unknown''\<rparr>)"

record visual_sentiment =
  frame_sentiments :: "string list option"
  distribution :: "string counter option"
  dominant_sentiment :: string

record video_result =
  vr_key_frames :: key_frames_result
  motion_analysis :: motion_result
  visual :: visual_sentiment
  energy_level :: string

datatype video_analysis =
    VideoError string
  | VideoAnalysis video_result

text \<open>The \<open>.get(key, default)\<close> reads of \<open>analyze_video\<close>.\<close>

definition get_frame_paths :: "key_frames_result \<Rightarrow> string list" where
  "get_frame_paths kf = (case kf of KeyFramesError e \<Rightarrow> [] | KeyFrames k \<Rightarrow> frame_paths k)"

definition get_image_sentiment :: "image_analysis \<Rightarrow> string" where
  "get_image_sentiment a =
     (case a of ImageError e \<Rightarrow> ''neutral'' | ImageAnalysis r \<Rightarrow> image_sentiment r)"

definition get_activity_level :: "motion_result \<Rightarrow> string" where
  "get_activity_level m =
     (case m of MotionError e \<Rightarrow> ''unknown'' | Motion r \<Rightarrow> activity_level r)"

text \<open>The loop over the frame paths; an exception of \<open>analyze_image\<close> ends it.\<close>

fun collect_frame_sentiments :: "platform \<Rightarrow> string list \<Rightarrow> py_error + string list" where
  "collect_frame_sentiments pf [] = Inr []"
| "collect_frame_sentiments pf (frame_path # rest) =
     (case analyze_image pf frame_path of
        Inl e \<Rightarrow> Inl e
      | Inr img_analysis \<Rightarrow>
          (case collect_frame_sentiments pf rest of
             Inl e \<Rightarrow> Inl e
           | Inr ls \<Rightarrow> Inr (get_image_sentiment img_analysis # ls)))"

definition visual_of :: "string list \<Rightarrow> py_error + visual_sentiment" where
  "visual_of sentiments =
     (if sentiments \<noteq> [] then
        let sentiment_counts = Counter sentiments
        in case most_common1 sentiment_counts of
             [] \<Rightarrow> Inl IndexError
           | kc # rest \<Rightarrow>
               Inr \<lparr>frame_sentiments = Some sentiments,
                    distribution = Some sentiment_counts,
                    dominant_sentiment = fst kc\<rparr>
      else Inr \<lparr>frame_sentiments = None, distribution = None,
                dominant_sentiment = ''unknown''\<rparr>)"

definition energy_of :: "string \<Rightarrow> string" where
  "energy_of activity =
     (if activity = ''high_activity'' then ''high''
      else if activity = ''low_activity'' then ''low''
      else ''moderate'')"

definition analyze_video ::
  "platform \<Rightarrow> video_env \<Rightarrow> string \<Rightarrow> string option \<Rightarrow> py_error + video_analysis" where
  "analyze_video pf env video_path output_dir =
     (if \<not> v_exists env then Inr (VideoError (''Video not found: '' @ video_path))
      else
        let kf = extract_key_frames env video_path 5 output_dir;
            mo = analyze_motion env
        in case collect_frame_sentiments pf (get_frame_paths kf) of
             Inl e \<Rightarrow> Inl e
           | Inr sentiments \<Rightarrow>
               (case visual_of sentiments of
                  Inl e \<Rightarrow> Inl e
                | Inr vs \<Rightarrow>
                    Inr (VideoAnalysis
                      \<lparr>vr_key_frames = kf, motion_analysis = mo, visual = vs,
                       energy_level = energy_of (get_activity_level mo)\<rparr>)))"


section \<open>Auxiliary definitions for the statements\<close>

text \<open>
  The elements of a list in order of first occurrence: the key order of a \<open>Counter\<close>
  built from that list.
\<close>

fun first_seen :: "'a list \<Rightarrow> 'a list" where
  "first_seen [] = []"
| "first_seen (x # xs) = x # filter (\<lambda>y. y \<noteq> x) (first_seen xs)"

text \<open>
  A platform with five saved key frames: two dark blue pictures, two bright red ones,
  and a fifth frame whose file is missing.  Each picture has one colour, so no two
  percentages are ever added and the addition can be taken exact.
\<close>

definition demo_files :: "string \<Rightarrow> image_file" where
  "demo_files p =
     (if p = ''out/frame_0000.jpg'' then Picture [\<lparr>color_name = ''blue'', percentage = 60\<rparr>] 50
      else if p = ''out/frame_0001.jpg'' then Picture [\<lparr>color_name = ''red'', percentage = 70\<rparr>] 150
      else if p = ''out/frame_0002.jpg'' then Picture [\<lparr>color_name = ''red'', percentage = 70\<rparr>] 150
      else if p = ''out/frame_0003.jpg'' then Picture [\<lparr>color_name = ''blue'', percentage = 60\<rparr>] 50
      else Absent)"

definition demo_fs :: platform where
  "demo_fs = \<lparr>float_add = (+), files = demo_files\<rparr>"

text \<open>
  A picture whose warm and cool shares are both 50 when added exactly: purple and green
  against red, orange and pink.
\<close>

definition tie_colors :: "color_entry list" where
  "tie_colors =
     [\<lparr>color_name = ''purple'', percentage = 39.7\<rparr>,
      \<lparr>color_name = ''red'', percentage = 19.98\<rparr>,
      \<lparr>color_name = ''orange'', percentage = 17.28\<rparr>,
      \<lparr>color_name = ''pink'', percentage = 12.74\<rparr>,
      \<lparr>color_name = ''green'', percentage = 10.3\<rparr>]"


section \<open>Facts about counters and first maxima\<close>

lemma map_of_counter_add:
  "map_of (counter_add x cnt) k =
     (if k = x then Some (case map_of cnt x of None \<Rightarrow> 1 | Some c \<Rightarrow> c + 1) else map_of cnt k)"
  by (induction cnt) auto

lemma Counter_snoc: "Counter (xs @ [x]) = counter_add x (Counter xs)"
  by (simp add: Counter_def)

lemma map_of_Counter:
  "map_of (Counter xs) k = (if k \<in> set xs then Some (count_list xs k) else None)"
proof (induction xs arbitrary: k rule: rev_induct)
  case Nil
  show ?case by (simp add: Counter_def)
next
  case (snoc x xs)
  show ?case
    by (simp add: Counter_snoc map_of_counter_add snoc.IH)
qed

lemma counter_get_Counter: "counter_get (Counter xs) k 0 = count_list xs k"
  by (simp add: counter_get_def map_of_Counter count_list_0_iff)

lemma set_first_seen: "set (first_seen xs) = set xs"
  by (induction xs) auto

lemma distinct_first_seen: "distinct (first_seen xs)"
  by (induction xs) auto

lemma first_seen_snoc:
  "first_seen (xs @ [x]) = (if x \<in> set xs then first_seen xs else first_seen xs @ [x])"
  by (induction xs) (auto simp: set_first_seen)

lemma counter_add_tabulate:
  "distinct ks \<Longrightarrow>
   counter_add x (map (\<lambda>k. (k, f k)) ks) =
     (if x \<in> set ks then map (\<lambda>k. (k, if k = x then f k + 1 else f k)) ks
      else map (\<lambda>k. (k, f k)) ks @ [(x, 1)])"
  by (induction ks) auto


lemma Counter_tabulate:
  "Counter xs = map (\<lambda>k. (k, count_list xs k)) (first_seen xs)"
proof (induction xs rule: rev_induct)
  case Nil
  show ?case by (simp add: Counter_def)
next
  case (snoc x xs)
  have "Counter (xs @ [x]) = counter_add x (map (\<lambda>k. (k, count_list xs k)) (first_seen xs))"
    by (simp add: Counter_snoc snoc.IH)
  also have "\<dots> = map (\<lambda>k. (k, count_list (xs @ [x]) k)) (first_seen (xs @ [x]))"
    by (auto simp: counter_add_tabulate distinct_first_seen set_first_seen first_seen_snoc
        count_list_0_iff)
  finally show ?case .
qed

lemma max_from_mem: "max_from key b xs \<in> set (b # xs)"
  by (induction xs arbitrary: b) (auto split: if_splits)

lemma max_from_ge: "y \<in> set (b # xs) \<Longrightarrow> key y \<le> key (max_from key b xs)"
proof (induction xs arbitrary: b y)
  case Nil
  then show ?case by simp
next
  case (Cons x xs)
  let ?b' = "if key b < key x then x else b"
  have b': "key ?b' \<le> key (max_from key ?b' xs)"
    by (rule Cons.IH) simp
  show ?case
  proof (cases "y \<in> set xs")
    case True
    then show ?thesis using Cons.IH [of y ?b'] by simp
  next
    case False
    with Cons.prems have "y = b \<or> y = x" by auto
    then have "key y \<le> key ?b'" by auto
    with b' show ?thesis by simp
  qed
qed

lemma max_from_first:
  "y \<in> set (takeWhile (\<lambda>z. z \<noteq> max_from key b xs) (b # xs)) \<Longrightarrow>
   key y < key (max_from key b xs)"
proof (induction xs arbitrary: b y)
  case Nil
  then show ?case by simp
next
  case (Cons x xs)
  let ?b' = "if key b < key x then x else b"
  let ?r = "max_from key ?b' xs"
  have r: "max_from key b (x # xs) = ?r" by simp
  have ge: "key ?b' \<le> key ?r" by (rule max_from_ge) simp
  have IH: "\<And>z. z \<in> set (takeWhile (\<lambda>z. z \<noteq> ?r) (?b' # xs)) \<Longrightarrow> key z < key ?r"
    by (rule Cons.IH)
  from Cons.prems have y: "y \<in> set (takeWhile (\<lambda>z. z \<noteq> ?r) (b # x # xs))"
    by simp
  then have bne: "b \<noteq> ?r" by (auto split: if_splits)
  have kb: "key b < key ?r"
  proof (cases "key b < key x")
    case True
    with ge show ?thesis by simp
  next
    case False
    then have "?b' = b" by simp
    with bne IH [of b] show ?thesis by simp
  qed
  show ?case
  proof (cases "y = b")
    case True
    with kb r show ?thesis by simp
  next
    case False
    with y bne have xne: "x \<noteq> ?r" and y': "y = x \<or> y \<in> set (takeWhile (\<lambda>z. z \<noteq> ?r) xs)"
      by (auto split: if_splits)
    have kx: "key x < key ?r"
    proof (cases "key b < key x")
      case True
      then have "?b' = x" by simp
      with xne IH [of x] show ?thesis by simp
    next
      case False
      with kb show ?thesis by simp
    qed
    from y' show ?thesis
    proof
      assume "y = x"
      with kx r show ?thesis by simp
    next
      assume yt: "y \<in> set (takeWhile (\<lambda>z. z \<noteq> ?r) xs)"
      have "?b' \<noteq> ?r" using bne xne by (auto split: if_splits)
      with yt IH [of y] r show ?thesis by simp
    qed
  qed
qed

lemma takeWhile_filter_set:
  assumes "x \<noteq> d"
  shows "set (takeWhile (\<lambda>z. z \<noteq> d) (filter (\<lambda>y. y \<noteq> x) ys))
       = set (takeWhile (\<lambda>z. z \<noteq> d) ys) - {x}"
proof (induct ys)
  case Nil
  show ?case by simp
next
  case (Cons y ys)
  show ?case
  proof (cases "y = x")
    case True
    with assms Cons show ?thesis by simp
  next
    case False
    note yx = this
    show ?thesis
    proof (cases "y = d")
      case True
      with yx show ?thesis by simp
    next
      case False
      with yx Cons show ?thesis by (simp add: insert_Diff_if)
    qed
  qed
qed

lemma takeWhile_first_seen:
  "set (takeWhile (\<lambda>z. z \<noteq> d) (first_seen xs)) = set (takeWhile (\<lambda>z. z \<noteq> d) xs)"
  by (induction xs) (auto simp: takeWhile_filter_set)

lemma most_common1_Counter:
  assumes "ls \<noteq> []"
  shows "\<exists>d. most_common1 (Counter ls) = [(d, count_list ls d)]
           \<and> d \<in> set ls
           \<and> (\<forall>l \<in> set ls. count_list ls l \<le> count_list ls d)
           \<and> (\<forall>l \<in> set (takeWhile (\<lambda>x. x \<noteq> d) ls). count_list ls l < count_list ls d)"
proof -
  define g where "g = (\<lambda>k. (k, count_list ls k))"
  define ks where "ks = first_seen ls"
  have C: "Counter ls = map g ks" by (simp add: Counter_tabulate g_def ks_def)
  from assms have "ks \<noteq> []" unfolding ks_def by (cases ls) simp_all
  then obtain k0 ks' where ks: "ks = k0 # ks'" by (cases ks) auto
  define r where "r = max_from snd (g k0) (map g ks')"
  have mc: "most_common1 (Counter ls) = [r]"
    by (simp add: most_common1_def py_max_def C ks r_def)
  have "r \<in> set (g k0 # map g ks')" unfolding r_def by (rule max_from_mem)
  then have "r \<in> set (map g ks)" by (simp add: ks)
  then obtain d where d: "d \<in> set ks" and rd: "r = g d" by auto
  have dls: "d \<in> set ls" using d by (simp add: ks_def set_first_seen)
  have ge: "count_list ls l \<le> count_list ls d" if "l \<in> set ls" for l
  proof -
    from that have "l \<in> set ks" by (simp add: ks_def set_first_seen)
    then have "g l \<in> set (map g ks)" by simp
    then have "g l \<in> set (g k0 # map g ks')" by (simp add: ks)
    then have "snd (g l) \<le> snd r" unfolding r_def by (rule max_from_ge)
    then show ?thesis by (simp add: rd g_def)
  qed
  have tw: "takeWhile (\<lambda>z. z \<noteq> r) (map g ks) = map g (takeWhile (\<lambda>k. k \<noteq> d) ks)"
    by (simp add: takeWhile_map rd g_def comp_def)
  have lt: "count_list ls l < count_list ls d" if "l \<in> set (takeWhile (\<lambda>x. x \<noteq> d) ls)" for l
  proof -
    from that have "l \<in> set (takeWhile (\<lambda>x. x \<noteq> d) ks)"
      by (simp add: ks_def takeWhile_first_seen)
    then have "g l \<in> set (takeWhile (\<lambda>z. z \<noteq> r) (map g ks))"
      by (simp add: tw)
    then have "g l \<in> set (takeWhile (\<lambda>z. z \<noteq> max_from snd (g k0) (map g ks')) (g k0 # map g ks'))"
      by (simp add: ks r_def)
    then have "snd (g l) < snd (max_from snd (g k0) (map g ks'))"
      by (rule max_from_first)
    then have "snd (g l) < snd r" by (simp only: r_def)
    then show ?thesis by (simp add: rd g_def)
  qed
  from mc rd dls ge lt show ?thesis by (auto simp: g_def)
qed


section \<open>Text fusion\<close>

text \<open>
  C1.  Whatever the two upstream scorers return for a text (in particular for every pair
  in \<open>[-1,1] \<times> [-1,1]\<close>), \<open>combined_sentiment\<close> returns a combined score equal to
  0.6 times the social compound score plus 0.4 times the general polarity, and a
  confidence equal to the absolute value of that combined score.
\<close>

theorem combined_sentiment_weighted:
  "combined_score (combined_sentiment self txt) =
     0.6 * compound (polarity_scores self txt) + 0.4 * polarity (sentiment self txt)
   \<and> confidence (combined_sentiment self txt) =
     \<bar>0.6 * compound (polarity_scores self txt) + 0.4 * polarity (sentiment self txt)\<bar>"
  by (simp add: combined_sentiment_def analyze_sentiment_vader_def
        analyze_sentiment_textblob_def Let_def)

text \<open>
  The social score and the combined score are labelled by the threshold function with
  its inclusive comparisons; the general score is labelled with strict comparisons, so
  its label agrees with the threshold function everywhere but at the two boundaries.
\<close>

lemma vader_label: "v_label (analyze_sentiment_vader self txt) = labelFromScore (compound (polarity_scores self txt))"
  by (simp add: analyze_sentiment_vader_def labelFromScore_def Let_def)

lemma combined_label: "label (combined_sentiment self txt) = labelFromScore (combined_score (combined_sentiment self txt))"
  by (simp add: combined_sentiment_def labelFromScore_def Let_def)

lemma textblob_label_off_boundary:
  "\<bar>polarity (sentiment self txt)\<bar> \<noteq> 0.05 \<Longrightarrow>
   tb_label (analyze_sentiment_textblob self txt) = labelFromScore (polarity (sentiment self txt))"
  by (auto simp: analyze_sentiment_textblob_def labelFromScore_def Let_def)

text \<open>
  C2.  The claim says that all three scoring operations label a score \<open>x\<close> Positive when
  \<open>x \<ge> 0.05\<close> and Negative when \<open>x \<le> -0.05\<close>, boundaries included.
  \<open>analyze_sentiment_textblob\<close> compares strictly: for a text whose general polarity
  is exactly 0.05 it answers Neutral, where the threshold function (and the two sibling
  operations) answer Positive.
\<close>

theorem textblob_boundary_label:
  "tb_label (analyze_sentiment_textblob
      \<lparr>polarity_scores = (\<lambda>t. \<lparr>neg = 0, neu = 1, pos = 0, compound = 0\<rparr>),
       sentiment = (\<lambda>t. \<lparr>polarity = 0.05, subjectivity = 0\<rparr>)\<rparr> (cps ''so-so'')) = ''Neutral''
   \<and> labelFromScore 0.05 = ''Positive''"
  by (simp add: analyze_sentiment_textblob_def labelFromScore_def)


section \<open>Batch summary\<close>

text \<open>
  C3.  The claim says that the summary of an empty batch has \<open>total_posts = 0\<close> and all
  percentages 0, with no fault.  The frame that \<open>analyze_batch\<close> builds from no texts
  has no columns, and the summary's second entry selects the \<open>label\<close> column: the call
  ends with \<open>KeyError\<close> before the guards on the length are reached.
\<close>

theorem empty_batch_summary_raises:
  "get_sentiment_summary (analyze_batch self []) = Inl (KeyError ''label'')"
  by (simp add: get_sentiment_summary_def analyze_batch_def DataFrame_def column_def)

text \<open>An empty frame that does have the columns is summarised as the claim says.\<close>

lemma empty_frame_with_columns:
  "get_sentiment_summary \<lparr>df_columns = result_keys, df_rows = []\<rparr> =
     Inr \<lparr>total_posts = 0, positive_count = 0, negative_count = 0, neutral_count = 0,
          avg_sentiment = None, sentiment_std = None, most_positive = None,
          most_negative = None, positive_percentage = 0, negative_percentage = 0,
          neutral_percentage = 0\<rparr>"
  by (simp add: get_sentiment_summary_def column_def result_keys_def count_label_def
      mean_def std_def)


section \<open>Symbolic fusion\<close>

lemma symbol_fusion_counts:
  "symbol_fusion ss =
    (if ss = [] then (0, ''no_emoji'')
     else let score = (real (count_list ss ''positive'') - real (count_list ss ''negative''))
                        / real (length ss)
          in (score, if score > 0.1 then ''positive''
                     else if score < - 0.1 then ''negative'' else ''neutral''))"
  by (simp add: symbol_fusion_def Let_def counter_get_Counter)

lemma symbol_fusion_score:
  "ss \<noteq> [] \<Longrightarrow> fst (symbol_fusion ss) =
     (real (count_list ss ''positive'') - real (count_list ss ''negative'')) / real (length ss)"
  by (simp add: symbol_fusion_counts Let_def)

lemma symbol_fusion_label:
  "ss \<noteq> [] \<Longrightarrow> snd (symbol_fusion ss) =
     (if fst (symbol_fusion ss) > 0.1 then ''positive''
      else if fst (symbol_fusion ss) < - 0.1 then ''negative'' else ''neutral'')"
  by (simp only: symbol_fusion_counts Let_def if_False fst_conv snd_conv)

lemma analyze_emoji_fields:
  "emoji_sentiment_score (analyze_emoji_sentiment self txt) = fst (symbol_fusion (all_sentiments_of self txt))"
  "overall_emoji_sentiment (analyze_emoji_sentiment self txt) = snd (symbol_fusion (all_sentiments_of self txt))"
  "total_emoji_count (analyze_emoji_sentiment self txt) = length (extract_emojis self txt)"
  "total_emoticon_count (analyze_emoji_sentiment self txt) = length (extract_emoticons txt)"
  by (simp_all add: analyze_emoji_sentiment_def Let_def split: prod.splits)

text \<open>
  C4.  For every text in which no emoji and no emoticon is found,
  \<open>analyze_emoji_sentiment\<close> returns the score 0 and the overall label \<open>no_emoji\<close>,
  which is not the label \<open>neutral\<close>.
\<close>

theorem no_symbols_no_emoji:
  assumes "extract_emojis self txt = []" and "extract_emoticons txt = []"
  shows "emoji_sentiment_score (analyze_emoji_sentiment self txt) = 0
       \<and> overall_emoji_sentiment (analyze_emoji_sentiment self txt) = ''no_emoji''
       \<and> overall_emoji_sentiment (analyze_emoji_sentiment self txt) \<noteq> ''neutral''"
  using assms
  by (simp add: analyze_emoji_sentiment_def all_sentiments_of_def symbol_fusion_counts)

lemma emoticons_hello: "extract_emoticons (cps ''hello'') = []"
  by (simp add: extract_emoticons_def emoticon_sentiments_def cps_def)

theorem no_symbols_no_emoji_witness:
  "extract_emojis \<lparr>is_emoji = (\<lambda>c. False), demojize = (\<lambda>c. [])\<rparr> (cps ''hello'') = []
   \<and> extract_emoticons (cps ''hello'') = []
   \<and> emoji_sentiment_score
        (analyze_emoji_sentiment \<lparr>is_emoji = (\<lambda>c. False), demojize = (\<lambda>c. [])\<rparr> (cps ''hello'')) = 0
   \<and> overall_emoji_sentiment
        (analyze_emoji_sentiment \<lparr>is_emoji = (\<lambda>c. False), demojize = (\<lambda>c. [])\<rparr> (cps ''hello''))
        = ''no_emoji''"
proof -
  have a: "extract_emojis \<lparr>is_emoji = (\<lambda>c. False), demojize = (\<lambda>c. [])\<rparr> (cps ''hello'') = []"
    by (simp add: extract_emojis_def)
  show ?thesis
    using no_symbols_no_emoji [OF a emoticons_hello] a emoticons_hello by simp
qed

text \<open>
  C5.  For every text with at least one emoji or emoticon match, the score is the number
  of positive matches minus the number of negative matches, divided by the number of all
  matches; the overall label is \<open>positive\<close> exactly when the score exceeds 0.1,
  \<open>negative\<close> exactly when it is below -0.1, and \<open>neutral\<close> exactly in between.
  The witness is the example of the specification: matches positive, negative, positive
  give the score 1/3 and the label \<open>positive\<close>.
\<close>

theorem symbol_score_and_label:
  assumes "all_sentiments_of self txt \<noteq> []"
  shows "emoji_sentiment_score (analyze_emoji_sentiment self txt) =
           (real (count_list (all_sentiments_of self txt) ''positive'')
            - real (count_list (all_sentiments_of self txt) ''negative''))
           / real (total_emoji_count (analyze_emoji_sentiment self txt)
                   + total_emoticon_count (analyze_emoji_sentiment self txt))
       \<and> (overall_emoji_sentiment (analyze_emoji_sentiment self txt) = ''positive''
            \<longleftrightarrow> emoji_sentiment_score (analyze_emoji_sentiment self txt) > 0.1)
       \<and> (overall_emoji_sentiment (analyze_emoji_sentiment self txt) = ''negative''
            \<longleftrightarrow> emoji_sentiment_score (analyze_emoji_sentiment self txt) < - 0.1)
       \<and> (overall_emoji_sentiment (analyze_emoji_sentiment self txt) = ''neutral''
            \<longleftrightarrow> - 0.1 \<le> emoji_sentiment_score (analyze_emoji_sentiment self txt)
               \<and> emoji_sentiment_score (analyze_emoji_sentiment self txt) \<le> 0.1)"
proof -
  define s where "s = fst (symbol_fusion (all_sentiments_of self txt))"
  define l where "l = snd (symbol_fusion (all_sentiments_of self txt))"
  have len: "length (all_sentiments_of self txt) =
      length (extract_emojis self txt) + length (extract_emoticons txt)"
    by (simp add: all_sentiments_of_def)
  have score: "s = (real (count_list (all_sentiments_of self txt) ''positive'')
            - real (count_list (all_sentiments_of self txt) ''negative''))
           / real (length (extract_emojis self txt) + length (extract_emoticons txt))"
    unfolding s_def using symbol_fusion_score [OF assms] len by simp
  have l: "l = (if s > 0.1 then ''positive'' else if s < - 0.1 then ''negative'' else ''neutral'')"
    unfolding s_def l_def by (rule symbol_fusion_label [OF assms])
  have p: "l = ''positive'' \<longleftrightarrow> s > 0.1" using l by simp
  have n: "l = ''negative'' \<longleftrightarrow> s < - 0.1" using l by auto
  have u: "l = ''neutral'' \<longleftrightarrow> - 0.1 \<le> s \<and> s \<le> 0.1" using l by auto
  show ?thesis
    unfolding analyze_emoji_fields s_def [symmetric] l_def [symmetric]
    using score p n u by blast
qed

lemma three_emojis:
  "all_sentiments_of \<lparr>is_emoji = (\<lambda>c. True), demojize = (\<lambda>c. [])\<rparr> [0x1F60D, 0x1F621, 0x1F389]
     = [''positive'', ''negative'', ''positive'']"
  by (simp add: all_sentiments_of_def extract_emojis_def extract_emoticons_def
      emoticon_sentiments_def cps_def get_emoji_sentiment_def positive_emojis_def
      negative_emojis_def)

theorem symbol_score_and_label_witness:
  "all_sentiments_of \<lparr>is_emoji = (\<lambda>c. True), demojize = (\<lambda>c. [])\<rparr> [0x1F60D, 0x1F621, 0x1F389]
     = [''positive'', ''negative'', ''positive'']
   \<and> emoji_sentiment_score
        (analyze_emoji_sentiment \<lparr>is_emoji = (\<lambda>c. True), demojize = (\<lambda>c. [])\<rparr>
           [0x1F60D, 0x1F621, 0x1F389]) = 1 / 3
   \<and> overall_emoji_sentiment
        (analyze_emoji_sentiment \<lparr>is_emoji = (\<lambda>c. True), demojize = (\<lambda>c. [])\<rparr>
           [0x1F60D, 0x1F621, 0x1F389]) = ''positive''"
proof -
  let ?E = "\<lparr>is_emoji = (\<lambda>c. True), demojize = (\<lambda>c. [])\<rparr>"
  let ?t = "[0x1F60D, 0x1F621, 0x1F389] :: pystr"
  have ne: "all_sentiments_of ?E ?t \<noteq> []" by (simp add: three_emojis)
  have "length (all_sentiments_of ?E ?t) = 3" by (simp add: three_emojis)
  then have cnt: "total_emoji_count (analyze_emoji_sentiment ?E ?t)
             + total_emoticon_count (analyze_emoji_sentiment ?E ?t) = 3"
    by (simp add: analyze_emoji_fields all_sentiments_of_def)
  note th = symbol_score_and_label [OF ne]
  from th have
    s: "emoji_sentiment_score (analyze_emoji_sentiment ?E ?t) = 1 / 3"
    by (simp add: three_emojis cnt)
  from th s
  have "overall_emoji_sentiment (analyze_emoji_sentiment ?E ?t) = ''positive''"
    by simp
  with s three_emojis show ?thesis by simp
qed

text \<open>
  C9.  The fusion of a non-empty list of matched sentiments is unchanged when the
  positive count, the negative count and the total count are all doubled: score and
  label are the same.
\<close>

theorem symbol_fusion_scale_invariant:
  assumes "xs \<noteq> []"
    and "count_list ys ''positive'' = 2 * count_list xs ''positive''"
    and "count_list ys ''negative'' = 2 * count_list xs ''negative''"
    and "length ys = 2 * length xs"
  shows "symbol_fusion ys = symbol_fusion xs"
proof -
  from assms have ys: "ys \<noteq> []" by auto
  have "(real (count_list ys ''positive'') - real (count_list ys ''negative'')) / real (length ys)
      = (2 * (real (count_list xs ''positive'') - real (count_list xs ''negative'')))
        / (2 * real (length xs))"
    using assms by simp
  also have "\<dots> = (real (count_list xs ''positive'') - real (count_list xs ''negative'')) / real (length xs)"
    by (rule mult_divide_mult_cancel_left) simp
  finally have eq: "fst (symbol_fusion ys) = fst (symbol_fusion xs)"
    using ys assms(1) by (simp add: symbol_fusion_score)
  have "snd (symbol_fusion ys) = snd (symbol_fusion xs)"
    using eq by (simp only: symbol_fusion_label [OF ys] symbol_fusion_label [OF assms(1)])
  with eq show ?thesis by (simp add: prod_eq_iff)
qed

theorem symbol_fusion_scale_invariant_witness:
  "symbol_fusion [''positive'', ''negative'', ''positive'', ''positive'', ''negative'', ''positive'']
     = symbol_fusion [''positive'', ''negative'', ''positive'']
   \<and> symbol_fusion [''positive'', ''negative'', ''positive''] = (1 / 3, ''positive'')"
proof -
  have "symbol_fusion [''positive'', ''negative'', ''positive''] = (1 / 3, ''positive'')"
    by (simp add: symbol_fusion_counts)
  moreover have "symbol_fusion [''positive'', ''negative'', ''positive'', ''positive'', ''negative'', ''positive'']
     = symbol_fusion [''positive'', ''negative'', ''positive'']"
    by (rule symbol_fusion_scale_invariant) simp_all
  ultimately show ?thesis by simp
qed


section \<open>Visual fusion\<close>

text \<open>With exact addition the two sums are the exact sums of the percentages.\<close>

lemma foldl_add_sum_list: "foldl (+) a xs = a + sum_list xs" for a :: real
  by (induction xs arbitrary: a) simp_all

lemma py_sum_exact: "py_sum (+) xs = sum_list xs"
  by (simp add: py_sum_def foldl_add_sum_list)



text \<open>
  Where the exact sums tie, the rounding of the additions decides.  For the picture
  \<open>tie_colors\<close> both exact sums are 50, and with exact addition the label is
  \<open>neutral\<close>; on a platform whose additions round the warm sum above the cool sum
  (double precision gives 50.00000000000001 against 50.0) the label is \<open>positive\<close>.
\<close>

lemma tie_colors_sums:
  "warm_colors add tie_colors = add (add (add 0 19.98) 17.28) 12.74"
  "cool_colors add tie_colors = add (add 0 39.7) 10.3"
  by (simp_all add: warm_colors_def cool_colors_def tie_colors_def warm_names_def
      cool_names_def py_sum_def)

lemma tie_exact_addition:
  "analyze_image \<lparr>float_add = (+), files = (\<lambda>p. Picture tie_colors 150)\<rparr> ''post.jpg'' =
     Inr (ImageAnalysis \<lparr>dominant_colors = tie_colors, brightness_value = 150,
                          image_sentiment = ''neutral''\<rparr>)"
  by (simp add: analyze_image_def tie_colors_sums Let_def)

lemma tie_rounded_addition:
  assumes "files pf image_path = Picture tie_colors 150"
    and "float_add pf (float_add pf (float_add pf 0 19.98) 17.28) 12.74
           > float_add pf (float_add pf 0 39.7) 10.3"
  shows "analyze_image pf image_path =
     Inr (ImageAnalysis \<lparr>dominant_colors = tie_colors, brightness_value = 150,
                          image_sentiment = ''positive''\<rparr>)"
  using assms by (simp add: analyze_image_def tie_colors_sums Let_def)


section \<open>Acoustic fusion\<close>

text \<open>
  C8, as amended.  For every audio analysis that returns: if the transcription succeeded,
  the sentiment is the text fusion of the transcript and no \<open>audio_sentiment\<close> is
  reported; otherwise no text sentiment is reported and \<open>audio_sentiment\<close> is
  \<open>unknown\<close> when the feature extraction failed, and else follows the estimated tone:
  \<open>positive\<close> if it contains \<open>excited\<close> or \<open>energetic\<close>, \<open>negative\<close> if it contains
  \<open>angry\<close>, \<open>neutral\<close> otherwise.  The witness is the example of the specification:
  tone \<open>calm/subdued\<close> with no transcript gives \<open>neutral\<close>.
\<close>

theorem audio_fusion_order:
  assumes "analyze_audio ta env p = Inr r"
  shows "(tr_success (ar_transcription r) = Some True \<longrightarrow>
            (\<exists>t. tr_transcription (ar_transcription r) = Some t
                \<and> text_sentiment r = Some (combined_sentiment ta t))
            \<and> audio_sentiment r = None)
       \<and> (tr_success (ar_transcription r) \<noteq> Some True \<longrightarrow>
            text_sentiment r = None
            \<and> audio_sentiment r =
                Some (case ar_features r of
                        FeaturesError e \<Rightarrow> ''unknown''
                      | Features f \<Rightarrow>
                          if str_contains (estimated_tone f) ''excited''
                             \<or> str_contains (estimated_tone f) ''energetic'' then ''positive''
                          else if str_contains (estimated_tone f) ''angry'' then ''negative''
                          else ''neutral''))"
  using assms
  by (auto simp: analyze_audio_def tone_sentiment_def Let_def
      split: sum.splits if_splits option.splits features_result.splits)

theorem audio_fusion_order_witness:
  "analyze_audio \<lparr>polarity_scores = (\<lambda>t. \<lparr>neg = 0, neu = 1, pos = 0, compound = 0\<rparr>),
                  sentiment = (\<lambda>t. \<lparr>polarity = 0, subjectivity = 0\<rparr>)\<rparr>
     \<lparr>a_exists = True, sr_available = True, recognizer = UnknownValueError,
      wav = WavData 2 100 500 0.01\<rparr> ''voice.wav''
   = Inr \<lparr>ar_features = Features \<lparr>volume_level = ''quiet'', estimated_tone = ''calm/subdued''\<rparr>,
          ar_transcription = \<lparr>tr_transcription = Some [], tr_success = Some False,
             tr_engine = None, tr_error = Some ''Speech not recognized''\<rparr>,
          text_sentiment = None, audio_sentiment = Some ''neutral''\<rparr>"
proof -
  let ?ta = "\<lparr>polarity_scores = (\<lambda>t. \<lparr>neg = 0, neu = 1, pos = 0, compound = 0\<rparr>),
                  sentiment = (\<lambda>t. \<lparr>polarity = 0, subjectivity = 0\<rparr>)\<rparr>"
  let ?env = "\<lparr>a_exists = True, sr_available = True, recognizer = UnknownValueError,
      wav = WavData 2 100 500 0.01\<rparr>"
  have "\<exists>r. analyze_audio ?ta ?env ''voice.wav'' = Inr r"
    by (simp add: analyze_audio_def transcribe_audio_def Let_def)
  then obtain r where r: "analyze_audio ?ta ?env ''voice.wav'' = Inr r" by blast
  have f: "ar_features r = Features \<lparr>volume_level = ''quiet'', estimated_tone = ''calm/subdued''\<rparr>"
    using r by (auto simp: analyze_audio_def transcribe_audio_def extract_audio_features_def Let_def)
  have t: "ar_transcription r = \<lparr>tr_transcription = Some [], tr_success = Some False,
             tr_engine = None, tr_error = Some ''Speech not recognized''\<rparr>"
    using r by (auto simp: analyze_audio_def transcribe_audio_def Let_def)
  from audio_fusion_order [OF r] have "text_sentiment r = None \<and> audio_sentiment r = Some ''neutral''"
    by (simp add: f t)
  with f t have "r = \<lparr>ar_features = Features \<lparr>volume_level = ''quiet'', estimated_tone = ''calm/subdued''\<rparr>,
          ar_transcription = \<lparr>tr_transcription = Some [], tr_success = Some False,
             tr_engine = None, tr_error = Some ''Speech not recognized''\<rparr>,
          text_sentiment = None, audio_sentiment = Some ''neutral''\<rparr>"
    by (cases r) simp
  with r show ?thesis by simp
qed

text \<open>
  The claim as stated lets every analysis without a transcript end in one of the three
  tone labels.  For a missing audio file neither the transcription nor the feature
  extraction succeeds, and the reported sentiment is \<open>unknown\<close>.
\<close>

theorem audio_unknown_counterexample:
  "analyze_audio \<lparr>polarity_scores = (\<lambda>t. \<lparr>neg = 0, neu = 1, pos = 0, compound = 0\<rparr>),
                  sentiment = (\<lambda>t. \<lparr>polarity = 0, subjectivity = 0\<rparr>)\<rparr>
     \<lparr>a_exists = False, sr_available = True, recognizer = UnknownValueError,
      wav = WavFailure ''no such file''\<rparr> ''gone.wav''
   = Inr \<lparr>ar_features = FeaturesError ''File not found: gone.wav'',
          ar_transcription = \<lparr>tr_transcription = None, tr_success = None,
             tr_engine = None, tr_error = Some ''Audio file not found: gone.wav''\<rparr>,
          text_sentiment = None, audio_sentiment = Some ''unknown''\<rparr>
   \<and> ''unknown'' \<notin> {''positive'', ''negative'', ''neutral''}"
  by (simp add: analyze_audio_def transcribe_audio_def extract_audio_features_def Let_def)


section \<open>Video fusion\<close>

lemma collect_frame_sentiments_all2:
  "collect_frame_sentiments pf paths = Inr ls \<Longrightarrow>
   list_all2 (\<lambda>p l. \<exists>a. analyze_image pf p = Inr a \<and> l = get_image_sentiment a) paths ls"
  by (induction paths arbitrary: ls) (auto split: sum.splits)

lemma visual_of_empty:
  "visual_of [] = Inr \<lparr>frame_sentiments = None, distribution = None,
                       dominant_sentiment = ''unknown''\<rparr>"
  by (simp add: visual_of_def)

lemma visual_of_nonempty:
  assumes "ls \<noteq> []" and "visual_of ls = Inr vs"
  shows "frame_sentiments vs = Some ls
       \<and> dominant_sentiment vs \<in> set ls
       \<and> (\<forall>l \<in> set ls. count_list ls l \<le> count_list ls (dominant_sentiment vs))
       \<and> (\<forall>l \<in> set (takeWhile (\<lambda>x. x \<noteq> dominant_sentiment vs) ls).
             count_list ls l < count_list ls (dominant_sentiment vs))"
proof -
  from most_common1_Counter [OF assms(1)] obtain d where
    mc: "most_common1 (Counter ls) = [(d, count_list ls d)]" and
    d: "d \<in> set ls" "\<forall>l \<in> set ls. count_list ls l \<le> count_list ls d"
       "\<forall>l \<in> set (takeWhile (\<lambda>x. x \<noteq> d) ls). count_list ls l < count_list ls d"
    by blast
  from assms mc have "vs = \<lparr>frame_sentiments = Some ls, distribution = Some (Counter ls),
                    dominant_sentiment = d\<rparr>"
    by (simp add: visual_of_def Let_def)
  with d show ?thesis by simp
qed

lemma visual_of_total: "\<exists>vs. visual_of ls = Inr vs"
proof (cases "ls = []")
  case True
  then show ?thesis by (simp add: visual_of_def)
next
  case False
  from most_common1_Counter [OF False] obtain d where
    "most_common1 (Counter ls) = [(d, count_list ls d)]" by blast
  with False show ?thesis by (simp add: visual_of_def Let_def)
qed

lemma frame_paths_length:
  "length (get_frame_paths (extract_key_frames env video_path n output_dir)) =
     (if v_exists env \<and> v_total_frames env \<noteq> 0 \<and> truthy output_dir
      then length (filter (v_read env) [0..<n]) else 0)"
  by (simp add: get_frame_paths_def extract_key_frames_def truthy_def Let_def
      split: option.splits)


lemma analyze_video_fields:
  assumes "analyze_video pf env video_path output_dir = Inr (VideoAnalysis r)"
  shows "v_exists env"
    and "vr_key_frames r = extract_key_frames env video_path 5 output_dir"
    and "motion_analysis r = analyze_motion env"
    and "energy_level r = energy_of (get_activity_level (analyze_motion env))"
    and "\<exists>ls. collect_frame_sentiments pf
            (get_frame_paths (extract_key_frames env video_path 5 output_dir)) = Inr ls
          \<and> visual_of ls = Inr (visual r)"
  using assms
  by (auto simp: analyze_video_def Let_def split: if_splits sum.splits)

text \<open>
  C6, as amended.  The frames that are classified are the key frames saved to disk, one
  path per frame that was read, and none at all when no output directory was given.
  When there is no saved frame the dominant sentiment is \<open>unknown\<close>.  When there is at
  least one, each saved frame is classified on its own by the image analysis (a frame
  whose analysis carries an error counts as \<open>neutral\<close>), and the dominant sentiment is a
  label of maximal count among the frame labels; among labels of maximal count it is
  the one that occurs first in extraction order, that is, every label seen before its
  first occurrence has a strictly smaller count.
\<close>

theorem dominant_sentiment_rule:
  assumes "analyze_video pf env video_path output_dir = Inr (VideoAnalysis r)"
  shows "length (get_frame_paths (vr_key_frames r)) =
           (if v_total_frames env \<noteq> 0 \<and> truthy output_dir
            then length (filter (v_read env) [0..<5]) else 0)
       \<and> (get_frame_paths (vr_key_frames r) = [] \<longrightarrow>
            dominant_sentiment (visual r) = ''unknown'')
       \<and> (get_frame_paths (vr_key_frames r) \<noteq> [] \<longrightarrow>
            (\<exists>ls. frame_sentiments (visual r) = Some ls
               \<and> list_all2 (\<lambda>p l. \<exists>a. analyze_image pf p = Inr a \<and> l = get_image_sentiment a)
                    (get_frame_paths (vr_key_frames r)) ls
               \<and> dominant_sentiment (visual r) \<in> set ls
               \<and> (\<forall>l \<in> set ls. count_list ls l \<le> count_list ls (dominant_sentiment (visual r)))
               \<and> (\<forall>l \<in> set (takeWhile (\<lambda>x. x \<noteq> dominant_sentiment (visual r)) ls).
                     count_list ls l < count_list ls (dominant_sentiment (visual r)))))"
proof -
  note f = analyze_video_fields [OF assms]
  define paths where "paths = get_frame_paths (vr_key_frames r)"
  from f(5) f(2) obtain ls where
    c: "collect_frame_sentiments pf paths = Inr ls" and v: "visual_of ls = Inr (visual r)"
    unfolding paths_def by auto
  have all2: "list_all2 (\<lambda>p l. \<exists>a. analyze_image pf p = Inr a \<and> l = get_image_sentiment a) paths ls"
    using c by (rule collect_frame_sentiments_all2)
  then have len: "length paths = length ls" by (rule list_all2_lengthD)
  have 1: "length paths =
           (if v_total_frames env \<noteq> 0 \<and> truthy output_dir
            then length (filter (v_read env) [0..<5]) else 0)"
    unfolding paths_def f(2) using f(1) by (simp add: frame_paths_length)
  have 2: "paths = [] \<longrightarrow> dominant_sentiment (visual r) = ''unknown''"
  proof
    assume "paths = []"
    with len have "ls = []" by simp
    with v have "visual r = \<lparr>frame_sentiments = None, distribution = None,
                       dominant_sentiment = ''unknown''\<rparr>"
      by (simp add: visual_of_empty)
    then show "dominant_sentiment (visual r) = ''unknown''" by simp
  qed
  have 3: "paths \<noteq> [] \<longrightarrow>
            (\<exists>ls. frame_sentiments (visual r) = Some ls
               \<and> list_all2 (\<lambda>p l. \<exists>a. analyze_image pf p = Inr a \<and> l = get_image_sentiment a)
                    paths ls
               \<and> dominant_sentiment (visual r) \<in> set ls
               \<and> (\<forall>l \<in> set ls. count_list ls l \<le> count_list ls (dominant_sentiment (visual r)))
               \<and> (\<forall>l \<in> set (takeWhile (\<lambda>x. x \<noteq> dominant_sentiment (visual r)) ls).
                     count_list ls l < count_list ls (dominant_sentiment (visual r))))"
  proof
    assume "paths \<noteq> []"
    with len have ne: "ls \<noteq> []" by auto
    from visual_of_nonempty [OF ne v] all2
    show "\<exists>ls. frame_sentiments (visual r) = Some ls
               \<and> list_all2 (\<lambda>p l. \<exists>a. analyze_image pf p = Inr a \<and> l = get_image_sentiment a)
                    paths ls
               \<and> dominant_sentiment (visual r) \<in> set ls
               \<and> (\<forall>l \<in> set ls. count_list ls l \<le> count_list ls (dominant_sentiment (visual r)))
               \<and> (\<forall>l \<in> set (takeWhile (\<lambda>x. x \<noteq> dominant_sentiment (visual r)) ls).
                     count_list ls l < count_list ls (dominant_sentiment (visual r)))"
      by blast
  qed
  from 1 2 3 show ?thesis unfolding paths_def by blast
qed

lemma analyze_video_eval:
  assumes "v_exists env"
    and "collect_frame_sentiments pf
           (get_frame_paths (extract_key_frames env video_path 5 output_dir)) = Inr ls"
    and "visual_of ls = Inr vs"
  shows "analyze_video pf env video_path output_dir =
     Inr (VideoAnalysis
       \<lparr>vr_key_frames = extract_key_frames env video_path 5 output_dir,
        motion_analysis = analyze_motion env, visual = vs,
        energy_level = energy_of (get_activity_level (analyze_motion env))\<rparr>)"
  using assms by (simp add: analyze_video_def Let_def)

lemma upt5: "[0..<5] = [0, 1, 2, 3, 4]"
  by (simp add: upt_rec)

lemma demo_sentiments:
  "collect_frame_sentiments demo_fs
     [''out/frame_0000.jpg'', ''out/frame_0001.jpg'', ''out/frame_0002.jpg'',
      ''out/frame_0003.jpg'', ''out/frame_0004.jpg'']
   = Inr [''negative'', ''positive'', ''positive'', ''negative'', ''neutral'']"
  by (simp add: demo_fs_def demo_files_def analyze_image_def warm_colors_def cool_colors_def
      warm_names_def cool_names_def py_sum_def get_image_sentiment_def Let_def)

lemma demo_counter:
  "Counter [''negative'', ''positive'', ''positive'', ''negative'', ''neutral'']
     = [(''negative'', 2), (''positive'', 2), (''neutral'', 1)]"
  by (simp add: Counter_def)

theorem dominant_sentiment_rule_witness:
  "analyze_video demo_fs
     \<lparr>v_exists = True, v_opened = True, v_total_frames = 100, v_fps = 25,
      v_read = (\<lambda>i. True), v_motion_scores = [12]\<rparr> ''clip.mp4'' (Some ''out'')
   = Inr (VideoAnalysis
       \<lparr>vr_key_frames = KeyFrames \<lparr>kf_total_frames = 100, kf_fps = 25,
          extracted_frames = [0, 1, 2, 3, 4],
          frame_paths = [''out/frame_0000.jpg'', ''out/frame_0001.jpg'', ''out/frame_0002.jpg'',
                         ''out/frame_0003.jpg'', ''out/frame_0004.jpg''],
          num_extracted = 5\<rparr>,
        motion_analysis = Motion \<lparr>motion_scores = [12], activity_level = ''moderate_activity''\<rparr>,
        visual = \<lparr>frame_sentiments =
                    Some [''negative'', ''positive'', ''positive'', ''negative'', ''neutral''],
                  distribution = Some [(''negative'', 2), (''positive'', 2), (''neutral'', 1)],
                  dominant_sentiment = ''negative''\<rparr>,
        energy_level = ''moderate''\<rparr>)"
proof -
  let ?env = "\<lparr>v_exists = True, v_opened = True, v_total_frames = 100, v_fps = 25,
      v_read = (\<lambda>i. True), v_motion_scores = [12]\<rparr>"
  have e: "analyze_video demo_fs ?env ''clip.mp4'' (Some ''out'')
   = Inr (VideoAnalysis
       \<lparr>vr_key_frames = KeyFrames \<lparr>kf_total_frames = 100, kf_fps = 25,
          extracted_frames = [0, 1, 2, 3, 4],
          frame_paths = [''out/frame_0000.jpg'', ''out/frame_0001.jpg'', ''out/frame_0002.jpg'',
                         ''out/frame_0003.jpg'', ''out/frame_0004.jpg''],
          num_extracted = 5\<rparr>,
        motion_analysis = Motion \<lparr>motion_scores = [12], activity_level = ''moderate_activity''\<rparr>,
        visual = \<lparr>frame_sentiments =
                    Some [''negative'', ''positive'', ''positive'', ''negative'', ''neutral''],
                  distribution = Some [(''negative'', 2), (''positive'', 2), (''neutral'', 1)],
                  dominant_sentiment = ''negative''\<rparr>,
        energy_level = ''moderate''\<rparr>)"
  proof -
    have kf: "extract_key_frames ?env ''clip.mp4'' 5 (Some ''out'') =
        KeyFrames \<lparr>kf_total_frames = 100, kf_fps = 25,
          extracted_frames = [0, 1, 2, 3, 4],
          frame_paths = [''out/frame_0000.jpg'', ''out/frame_0001.jpg'', ''out/frame_0002.jpg'',
                         ''out/frame_0003.jpg'', ''out/frame_0004.jpg''],
          num_extracted = 5\<rparr>"
      by (simp add: extract_key_frames_def upt5 path_join_def format_04d_def numeral_3_eq_3)
    have mo: "analyze_motion ?env =
        Motion \<lparr>motion_scores = [12], activity_level = ''moderate_activity''\<rparr>"
      by (simp add: analyze_motion_def)
    have vs: "visual_of [''negative'', ''positive'', ''positive'', ''negative'', ''neutral''] =
        Inr \<lparr>frame_sentiments =
                    Some [''negative'', ''positive'', ''positive'', ''negative'', ''neutral''],
                  distribution = Some [(''negative'', 2), (''positive'', 2), (''neutral'', 1)],
                  dominant_sentiment = ''negative''\<rparr>"
      by (simp add: visual_of_def demo_counter most_common1_def py_max_def)
    have ps: "get_frame_paths (extract_key_frames ?env ''clip.mp4'' 5 (Some ''out'')) =
        [''out/frame_0000.jpg'', ''out/frame_0001.jpg'', ''out/frame_0002.jpg'',
         ''out/frame_0003.jpg'', ''out/frame_0004.jpg'']"
      by (simp add: kf get_frame_paths_def)
    have c: "collect_frame_sentiments demo_fs
        (get_frame_paths (extract_key_frames ?env ''clip.mp4'' 5 (Some ''out''))) =
        Inr [''negative'', ''positive'', ''positive'', ''negative'', ''neutral'']"
      by (simp only: ps demo_sentiments)
    have ex: "v_exists ?env" by simp
    have "analyze_video demo_fs ?env ''clip.mp4'' (Some ''out'') =
        Inr (VideoAnalysis
          \<lparr>vr_key_frames = extract_key_frames ?env ''clip.mp4'' 5 (Some ''out''),
           motion_analysis = analyze_motion ?env,
           visual = \<lparr>frame_sentiments =
                    Some [''negative'', ''positive'', ''positive'', ''negative'', ''neutral''],
                  distribution = Some [(''negative'', 2), (''positive'', 2), (''neutral'', 1)],
                  dominant_sentiment = ''negative''\<rparr>,
           energy_level = energy_of (get_activity_level (analyze_motion ?env))\<rparr>)"
      by (rule analyze_video_eval [OF ex c vs])
    then show ?thesis
      unfolding kf mo by (simp add: get_activity_level_def energy_of_def)
  qed
  from dominant_sentiment_rule [OF e] e show ?thesis by simp
qed

text \<open>
  The claim as stated promises a majority label whenever a key frame was extracted.
  With no output directory five frames are extracted and none is saved, so none is
  classified and the dominant sentiment is \<open>unknown\<close>.
\<close>

theorem unsaved_frames_counterexample:
  "analyze_video \<lparr>float_add = (+), files = (\<lambda>p. Absent)\<rparr>
     \<lparr>v_exists = True, v_opened = True, v_total_frames = 120, v_fps = 30,
      v_read = (\<lambda>i. True), v_motion_scores = [3]\<rparr> ''clip.mp4'' None
   = Inr (VideoAnalysis
       \<lparr>vr_key_frames = KeyFrames \<lparr>kf_total_frames = 120, kf_fps = 30,
          extracted_frames = [0, 1, 2, 3, 4], frame_paths = [], num_extracted = 5\<rparr>,
        motion_analysis = Motion \<lparr>motion_scores = [3], activity_level = ''low_activity''\<rparr>,
        visual = \<lparr>frame_sentiments = None, distribution = None,
                  dominant_sentiment = ''unknown''\<rparr>,
        energy_level = ''low''\<rparr>)"
  by (simp add: analyze_video_def extract_key_frames_def upt5 get_frame_paths_def
      visual_of_def analyze_motion_def get_activity_level_def energy_of_def Let_def)

text \<open>The energy level is a function of the activity level with three values.\<close>

lemma energy_of_cases:
  "energy_of a = ''high'' \<or> energy_of a = ''moderate'' \<or> energy_of a = ''low''"
  by (simp add: energy_of_def)

text \<open>
  C10.  Every result of \<open>analyze_video\<close> on an existing video carries an energy level
  that is \<open>high\<close>, \<open>moderate\<close> or \<open>low\<close>, never \<open>unknown\<close>; whenever the reported
  activity level is neither \<open>high_activity\<close> nor \<open>low_activity\<close> it is \<open>moderate\<close>,
  in particular when the motion analysis failed to open the video or produced no
  samples, where the activity level is \<open>unknown\<close>.
\<close>

theorem energy_level_values:
  assumes "analyze_video pf env video_path output_dir = Inr (VideoAnalysis r)"
  shows "energy_level r \<in> {''high'', ''moderate'', ''low''}
       \<and> energy_level r \<noteq> ''unknown''
       \<and> (get_activity_level (motion_analysis r) \<noteq> ''high_activity''
            \<and> get_activity_level (motion_analysis r) \<noteq> ''low_activity''
            \<longrightarrow> energy_level r = ''moderate'')
       \<and> (\<not> v_opened env \<or> v_motion_scores env = [] \<longrightarrow>
             get_activity_level (motion_analysis r) = ''unknown''
             \<and> energy_level r = ''moderate'')"
proof -
  note f = analyze_video_fields [OF assms]
  have e: "energy_level r = energy_of (get_activity_level (motion_analysis r))"
    using f(3,4) by simp
  have 1: "energy_level r \<in> {''high'', ''moderate'', ''low''}"
    using energy_of_cases [of "get_activity_level (motion_analysis r)"] e by auto
  then have 2: "energy_level r \<noteq> ''unknown''" by auto
  have 3: "get_activity_level (motion_analysis r) \<noteq> ''high_activity''
            \<and> get_activity_level (motion_analysis r) \<noteq> ''low_activity''
            \<longrightarrow> energy_level r = ''moderate''"
    using e by (simp add: energy_of_def)
  have 4: "\<not> v_opened env \<or> v_motion_scores env = [] \<longrightarrow>
             get_activity_level (motion_analysis r) = ''unknown''"
    using f(3) by (auto simp: analyze_motion_def get_activity_level_def Let_def)
  have 5: "get_activity_level (motion_analysis r) = ''unknown'' \<longrightarrow> energy_level r = ''moderate''"
    using e by (simp add: energy_of_def)
  from 1 2 3 4 5 show ?thesis by blast
qed

theorem energy_level_values_witness:
  "analyze_video \<lparr>float_add = (+), files = (\<lambda>p. Absent)\<rparr>
     \<lparr>v_exists = True, v_opened = False, v_total_frames = 0, v_fps = 0,
      v_read = (\<lambda>i. False), v_motion_scores = []\<rparr> ''clip.mp4'' (Some ''frames'')
   = Inr (VideoAnalysis
       \<lparr>vr_key_frames = KeyFramesError ''Could not read video frames'',
        motion_analysis = MotionError ''Could not open video'',
        visual = \<lparr>frame_sentiments = None, distribution = None,
                  dominant_sentiment = ''unknown''\<rparr>,
        energy_level = ''moderate''\<rparr>)"
proof -
  let ?env = "\<lparr>v_exists = True, v_opened = False, v_total_frames = 0, v_fps = 0,
      v_read = (\<lambda>i. False), v_motion_scores = []\<rparr>"
  have "\<exists>r. analyze_video \<lparr>float_add = (+), files = (\<lambda>p. Absent)\<rparr> ?env ''clip.mp4'' (Some ''frames'') = Inr (VideoAnalysis r)"
    by (simp add: analyze_video_def extract_key_frames_def analyze_motion_def
        get_frame_paths_def visual_of_def Let_def)
  then obtain r where r: "analyze_video \<lparr>float_add = (+), files = (\<lambda>p. Absent)\<rparr> ?env ''clip.mp4'' (Some ''frames'') = Inr (VideoAnalysis r)"
    by blast
  from energy_level_values [OF r] have "energy_level r = ''moderate''" by simp
  with r show ?thesis
    by (auto simp: analyze_video_def extract_key_frames_def analyze_motion_def
        get_frame_paths_def visual_of_def Let_def)
qed

end
